theory Spec2Isabelle
  imports Main
begin

text \<open>
  A model of \<^verbatim>\<open>pywrapper/setup.py\<close>, the build script of the range_libc Python
  extension: the resolution of the two flags from the environment, the search for the
  CUDA toolkit, the flag and source lists, the extension handed to \<^verbatim>\<open>setup\<close>, and
  the compile hook that sends \<^verbatim>\<open>.cu\<close> sources to \<^verbatim>\<open>nvcc\<close>. Exceptions are
  values of a sum type; the environment, the filesystem and the toolchain are
  arguments.
\<close>

section \<open>Strings and the process environment\<close>

text \<open>
  \<^verbatim>\<open>os.environ\<close> is a dictionary from variable names to values. Python's
  \<^verbatim>\<open>str.lower\<close> is modelled on the ASCII letters: no character outside
  \<^verbatim>\<open>A-Z\<close> lowers to \<^verbatim>\<open>o\<close> or \<^verbatim>\<open>n\<close>, so the comparison
  with the literal \<^verbatim>\<open>"on"\<close> is decided by the ASCII letters alone.
\<close>

type_synonym environ = "string \<rightharpoonup> string"

definition lower_char :: "char \<Rightarrow> char" where
  "lower_char c =
     (case map_of (zip ''ABCDEFGHIJKLMNOPQRSTUVWXYZ'' ''abcdefghijklmnopqrstuvwxyz'') c of
        Some d \<Rightarrow> d
      | None \<Rightarrow> c)"

definition lower :: "string \<Rightarrow> string" where
  "lower s = map lower_char s"

section \<open>check_for_flag (setup.py, lines 13-24)\<close>

text \<open>
  The message arguments are strings, or the value \<^verbatim>\<open>False\<close> that silences the
  message (\<^verbatim>\<open>not truemsg == False\<close>). The function prints and returns
  \<^verbatim>\<open>enabled\<close>; the model returns the flag together with the printed lines.
\<close>

datatype msg = PyFalse | Str string

fun print_msg :: "msg \<Rightarrow> string" where
  "print_msg PyFalse = ''False''"
| "print_msg (Str s) = s"

definition check_for_flag :: "environ \<Rightarrow> string \<Rightarrow> msg \<Rightarrow> msg \<Rightarrow> bool \<times> string list" where
  "check_for_flag env flag_str truemsg falsemsg =
     (let enabled = (case env flag_str of
                       Some v \<Rightarrow> lower v = ''on''
                     | None \<Rightarrow> False)
      in if enabled \<and> \<not> truemsg = PyFalse then (enabled, [print_msg truemsg])
         else if \<not> enabled \<and> \<not> falsemsg = PyFalse then
           (enabled, [print_msg falsemsg,
                      ''   $ sudo '' @ flag_str @ ''=ON python setup.py install''])
         else (enabled, []))"

section \<open>Paths (posixpath) and the filesystem\<close>

text \<open>
  The script runs on a POSIX system (its fixed directories are under \<^verbatim>\<open>/usr/local\<close>):
  \<^verbatim>\<open>os.sep\<close> is \<^verbatim>\<open>/\<close> and \<^verbatim>\<open>os.pathsep\<close> is \<^verbatim>\<open>:\<close>. The functions of
  \<^verbatim>\<open>os.path\<close> that the script calls are written out as \<^verbatim>\<open>posixpath\<close> computes
  them. What exists on disk is a parameter: \<^verbatim>\<open>os.path.isdir\<close> and
  \<^verbatim>\<open>os.path.exists\<close> are the two tests the script makes, \<^verbatim>\<open>getcwd\<close> the
  directory \<^verbatim>\<open>abspath\<close> resolves a relative path against.
\<close>

record os_state =
  environ :: environ
  isdir :: "string \<Rightarrow> bool"
  exists :: "string \<Rightarrow> bool"
  getcwd :: string

definition startswith :: "string \<Rightarrow> string \<Rightarrow> bool" where
  "startswith s p = (take (length p) s = p)"

definition endswith :: "string \<Rightarrow> string \<Rightarrow> bool" where
  "endswith s p = (length p \<le> length s \<and> drop (length s - length p) s = p)"

text \<open>\<^verbatim>\<open>s.split(c)\<close> for a one-character separator: never empty, \<^verbatim>\<open>"".split(c) == [""]\<close>.\<close>

fun split :: "char \<Rightarrow> string \<Rightarrow> string list" where
  "split c [] = [[]]"
| "split c (x # xs) =
     (if x = c then [] # split c xs
      else (case split c xs of
              w # ws \<Rightarrow> (x # w) # ws
            | [] \<Rightarrow> [[x]]))"

text \<open>\<^verbatim>\<open>sep.join(xs)\<close>.\<close>

fun str_join :: "string \<Rightarrow> string list \<Rightarrow> string" where
  "str_join sep [] = []"
| "str_join sep [x] = x"
| "str_join sep (x # y # ys) = x @ sep @ str_join sep (y # ys)"

text \<open>\<^verbatim>\<open>p.rfind(c)\<close>: the highest index of \<^verbatim>\<open>c\<close> in \<^verbatim>\<open>p\<close>, or \<^verbatim>\<open>-1\<close>.\<close>

definition rfind :: "string \<Rightarrow> char \<Rightarrow> int" where
  "rfind p c =
     (if c \<in> set p then int (length p) - 1 - int (length (takeWhile (\<lambda>x. x \<noteq> c) (rev p)))
      else - 1)"

text \<open>\<^verbatim>\<open>s.rstrip(c)\<close> for one character.\<close>

definition rstrip :: "char \<Rightarrow> string \<Rightarrow> string" where
  "rstrip c s = rev (dropWhile (\<lambda>x. x = c) (rev s))"

text \<open>
  \<^verbatim>\<open>posixpath.join(a, *p)\<close>: a component that starts with a slash restarts the path.
\<close>

definition join_step :: "string \<Rightarrow> string \<Rightarrow> string" where
  "join_step path b =
     (if startswith b ''/'' then b
      else if path = [] \<or> endswith path ''/'' then path @ b
      else path @ ''/'' @ b)"

definition pjoin :: "string \<Rightarrow> string list \<Rightarrow> string" where
  "pjoin a p = foldl join_step a p"

text \<open>
  \<^verbatim>\<open>posixpath.dirname(p)\<close>: the text up to the last slash, trailing slashes removed
  unless it consists of slashes only.
\<close>

definition dirname :: "string \<Rightarrow> string" where
  "dirname p =
     (let i = rfind p CHR ''/'' + 1;
          head = take (nat i) p
      in if head \<noteq> [] \<and> head \<noteq> replicate (length head) CHR ''/'' then rstrip CHR ''/'' head
         else head)"

text \<open>
  \<^verbatim>\<open>posixpath.splitext(p)\<close>: the extension starts at the last dot of the last
  component, unless only dots precede it there.
\<close>

definition splitext :: "string \<Rightarrow> string \<times> string" where
  "splitext p =
     (let sepIndex = rfind p CHR ''/'';
          dotIndex = rfind p CHR ''.''
      in if dotIndex > sepIndex \<and>
            list_ex (\<lambda>c. c \<noteq> CHR ''.'')
              (take (nat (dotIndex - (sepIndex + 1))) (drop (nat (sepIndex + 1)) p))
         then (take (nat dotIndex) p, drop (nat dotIndex) p)
         else (p, []))"

text \<open>
  \<^verbatim>\<open>posixpath.normpath\<close>: the loop over the components, with \<^verbatim>\<open>new_comps\<close> as
  the accumulator (\<^verbatim>\<open>part\<close> is the source's \<^verbatim>\<open>comp\<close>), and the function around it.
\<close>

fun norm_comps :: "nat \<Rightarrow> string list \<Rightarrow> string list \<Rightarrow> string list" where
  "norm_comps initial_slashes [] new_comps = new_comps"
| "norm_comps initial_slashes (part # comps) new_comps =
     (if part = [] \<or> part = ''.'' then norm_comps initial_slashes comps new_comps
      else if part \<noteq> ''..'' \<or> (initial_slashes = 0 \<and> new_comps = []) \<or>
              (new_comps \<noteq> [] \<and> last new_comps = ''..'')
        then norm_comps initial_slashes comps (new_comps @ [part])
      else if new_comps \<noteq> [] then norm_comps initial_slashes comps (butlast new_comps)
      else norm_comps initial_slashes comps new_comps)"

definition normpath :: "string \<Rightarrow> string" where
  "normpath path =
     (if path = [] then ''.''
      else
        let initial_slashes =
              (if startswith path ''/'' then
                 (if startswith path ''//'' \<and> \<not> startswith path ''///'' then 2 else 1)
               else (0::nat));
            comps = norm_comps initial_slashes (split CHR ''/'' path) [];
            path' = replicate initial_slashes CHR ''/'' @ str_join ''/'' comps
        in if path' = [] then ''.'' else path')"

definition abspath :: "os_state \<Rightarrow> string \<Rightarrow> string" where
  "abspath os path =
     normpath (if \<not> startswith path ''/'' then pjoin (getcwd os) [path] else path)"

section \<open>Errors\<close>

text \<open>
  The exceptions the script can raise. \<^verbatim>\<open>EnvironmentError\<close>, with its message,
  is what \<^verbatim>\<open>locate_cuda\<close> raises, both when no toolkit is found and when a path
  of the toolkit is missing; the message tells the two apart. \<^verbatim>\<open>KeyError\<close> is a
  lookup of an unset environment variable and holds the key, \<^verbatim>\<open>NameError\<close> a
  read of the global \<^verbatim>\<open>CUDA\<close> where it was never assigned and holds the name,
  \<^verbatim>\<open>CompileError\<close> what the toolchain's compile step raises, with its message.
\<close>

datatype error =
    EnvironmentError string
  | KeyError string
  | NameError string
  | CompileError string

section \<open>find_in_path (lines 41-46) and locate_cuda (lines 49-70)\<close>

fun find_in_dirs :: "os_state \<Rightarrow> string \<Rightarrow> string list \<Rightarrow> string option" where
  "find_in_dirs os name [] = None"
| "find_in_dirs os name (dir # dirs) =
     (let binpath = pjoin dir [name]
      in if exists os binpath then Some (abspath os binpath)
         else find_in_dirs os name dirs)"

definition find_in_path :: "os_state \<Rightarrow> string \<Rightarrow> string \<Rightarrow> string option" where
  "find_in_path os name path = find_in_dirs os name (split CHR '':'' path)"

text \<open>
  The dictionary \<^verbatim>\<open>cudaconfig\<close> has the four keys of its literal; \<^verbatim>\<open>items\<close>
  lists them in the order of insertion, which is the order the loop checks them in.
\<close>

record cudaconfig =
  cfg_home :: string
  cfg_nvcc :: string
  cfg_include :: string
  cfg_lib64 :: string

definition items :: "cudaconfig \<Rightarrow> (string \<times> string) list" where
  "items c = [(''home'', cfg_home c), (''nvcc'', cfg_nvcc c),
              (''include'', cfg_include c), (''lib64'', cfg_lib64 c)]"

text \<open>
  \<^verbatim>\<open>locate_cuda\<close> is written in two parts, composed below: the choice of
  \<^verbatim>\<open>home\<close> and \<^verbatim>\<open>nvcc\<close> (lines 50-63), and the check of the four paths
  (lines 65-70). The \<^verbatim>\<open>print\<close> of the dictionary before the return is left out:
  it changes nothing that is returned or raised.
\<close>

definition candidate_root :: "os_state \<Rightarrow> error + string \<times> string" where
  "candidate_root os =
     (if isdir os ''/usr/local/cuda-10.2'' then
        (let home = ''/usr/local/cuda-10.2'' in Inr (home, pjoin home [''bin'', ''nvcc'']))
      else if isdir os ''/usr/local/cuda'' then
        (let home = ''/usr/local/cuda'' in Inr (home, pjoin home [''bin'', ''nvcc'']))
      else (case environ os ''CUDAHOME'' of
              Some home \<Rightarrow> Inr (home, pjoin home [''bin'', ''nvcc''])
            | None \<Rightarrow>
               (case environ os ''PATH'' of
                  None \<Rightarrow> Inl (KeyError ''PATH'')
                | Some path \<Rightarrow>
                   (case find_in_path os ''nvcc'' path of
                      None \<Rightarrow>
                        Inl (EnvironmentError
                               ''nvcc binary not found. Set $CUDAHOME or add nvcc to $PATH.'')
                    | Some nvcc \<Rightarrow> Inr (dirname (dirname nvcc), nvcc)))))"

text \<open>Lines 66-68: the loop over the items, raising at the first path that is missing.\<close>

fun check_items :: "os_state \<Rightarrow> (string \<times> string) list \<Rightarrow> error option" where
  "check_items os [] = None"
| "check_items os ((k, v) # kvs) =
     (if \<not> exists os v then
        Some (EnvironmentError (''The CUDA '' @ k @ '' path could not be located in '' @ v))
      else check_items os kvs)"

text \<open>Lines 65-70: the dictionary of the four paths, checked and returned.\<close>

definition check_config :: "os_state \<Rightarrow> string \<Rightarrow> string \<Rightarrow> error + cudaconfig" where
  "check_config os home nvcc =
     (let cudaconfig = \<lparr>cfg_home = home, cfg_nvcc = nvcc,
                         cfg_include = pjoin home [''include''],
                         cfg_lib64 = pjoin home [''lib64'']\<rparr>
      in case check_items os (items cudaconfig) of
           Some e \<Rightarrow> Inl e
         | None \<Rightarrow> Inr cudaconfig)"

definition locate_cuda :: "os_state \<Rightarrow> error + cudaconfig" where
  "locate_cuda os =
     (case candidate_root os of
        Inl e \<Rightarrow> Inl e
      | Inr (home, nvcc) \<Rightarrow> check_config os home nvcc)"

section \<open>The module's globals (lines 27-32 and 73-90)\<close>

text \<open>
  The lists the script builds at import time. \<^verbatim>\<open>numpy_include\<close> is what
  \<^verbatim>\<open>numpy.get_include()\<close> returned. \<^verbatim>\<open>CUDA\<close> is assigned only in the
  branch of \<^verbatim>\<open>use_cuda\<close>: \<^verbatim>\<open>None\<close> is the global that was never bound.
\<close>

record globals =
  compiler_flags :: "string list"
  nvcc_flags :: "string list"
  include_dirs :: "string list"
  depends :: "string list"
  sources :: "string list"
  CUDA :: "cudaconfig option"

definition CHUNK_SIZE :: string where
  "CHUNK_SIZE = ''262144''"

definition NUM_THREADS :: string where
  "NUM_THREADS = ''256''"

text \<open>Lines 73-77.\<close>

definition init_globals :: "string \<Rightarrow> globals" where
  "init_globals numpy_include =
     \<lparr>compiler_flags = [''-w'', ''-std=c++11'', ''-O3''],
      nvcc_flags = [''-arch=sm_86'', ''--ptxas-options=-v'', ''-c'', ''--compiler-options'',
                    [CHR 0x27] @ ''-fPIC'' @ [CHR 0x27], ''-w'', ''-std=c++11'', ''-O3''],
      include_dirs = [''../'', numpy_include],
      depends = [''../includes/*.h''],
      sources = [''RangeLibc.pyx'', ''../vendor/lodepng/lodepng.cpp''],
      CUDA = None\<rparr>"

text \<open>
  Lines 82-90, after the two flags were resolved. A failure of \<^verbatim>\<open>locate_cuda\<close>
  ends the script.
\<close>

definition assemble :: "bool \<Rightarrow> bool \<Rightarrow> string \<Rightarrow> os_state \<Rightarrow> error + globals" where
  "assemble use_cuda trace numpy_include os =
     (let g0 = init_globals numpy_include
      in case (if use_cuda then
                 (let g1 = g0\<lparr>compiler_flags := compiler_flags g0 @
                                [''-DUSE_CUDA=1'', ''-DCHUNK_SIZE='' @ CHUNK_SIZE,
                                 ''-DNUM_THREADS='' @ NUM_THREADS]\<rparr>;
                      g2 = g1\<lparr>nvcc_flags := nvcc_flags g1 @
                                [''-DUSE_CUDA=1'', ''-DCHUNK_SIZE='' @ CHUNK_SIZE,
                                 ''-DNUM_THREADS='' @ NUM_THREADS]\<rparr>
                  in case locate_cuda os of
                       Inl e \<Rightarrow> Inl e
                     | Inr c \<Rightarrow>
                        (let g3 = g2\<lparr>CUDA := Some c\<rparr>;
                             g4 = g3\<lparr>include_dirs := include_dirs g3 @ [cfg_include c]\<rparr>
                         in Inr (g4\<lparr>sources := sources g4 @ [''../includes/kernels.cu'']\<rparr>)))
               else Inr g0) of
           Inl e \<Rightarrow> Inl e
         | Inr g \<Rightarrow>
            Inr (if trace then g\<lparr>compiler_flags := compiler_flags g @ [''-D_MAKE_TRACE_MAP=1'']\<rparr>
                 else g))"

section \<open>The extension and the call of setup (lines 117-154)\<close>

text \<open>
  The keyword arguments of \<^verbatim>\<open>Extension\<close>; one that is left out is the empty list,
  as \<^verbatim>\<open>Extension\<close> stores it.
\<close>

record extension =
  ext_name :: string
  ext_sources :: "string list"
  extra_compile_args :: "string list"
  extra_link_args :: "string list"
  ext_include_dirs :: "string list"
  library_dirs :: "string list"
  libraries :: "string list"
  runtime_library_dirs :: "string list"
  ext_depends :: "string list"
  language :: string

datatype build_ext_class = build_ext | custom_build_ext

record setup_args =
  setup_name :: string
  setup_author :: string
  setup_version :: string
  ext_modules :: "extension list"
  cmdclass_build_ext :: build_ext_class

definition setup_call :: "bool \<Rightarrow> globals \<Rightarrow> error + setup_args" where
  "setup_call use_cuda g =
     (if use_cuda then
        (case CUDA g of
           None \<Rightarrow> Inl (NameError ''CUDA'')
         | Some c \<Rightarrow>
            (let ext = \<lparr>ext_name = ''range_libc'',
                        ext_sources = sources g,
                        extra_compile_args = compiler_flags g,
                        extra_link_args = [''-std=c++11''],
                        ext_include_dirs = include_dirs g,
                        library_dirs = [cfg_lib64 c, ''/usr/lib/x86_64-linux-gnu''],
                        libraries = [''cudart''],
                        runtime_library_dirs = [cfg_lib64 c],
                        ext_depends = depends g,
                        language = ''c++''\<rparr>
             in Inr \<lparr>setup_name = ''range_libc'', setup_author = ''Corey Walsh'',
                      setup_version = ''0.1'', ext_modules = [ext],
                      cmdclass_build_ext = custom_build_ext\<rparr>))
      else
        Inr \<lparr>setup_name = ''range_libc'', setup_author = ''Corey Walsh'',
              setup_version = ''0.1'',
              ext_modules = [\<lparr>ext_name = ''range_libc'',
                              ext_sources = sources g,
                              extra_compile_args = compiler_flags g,
                              extra_link_args = [''-std=c++11''],
                              ext_include_dirs = include_dirs g,
                              library_dirs = [],
                              libraries = [],
                              runtime_library_dirs = [],
                              ext_depends = depends g,
                              language = ''c++''\<rparr>],
              cmdclass_build_ext = build_ext\<rparr>)"

text \<open>
  The script from top to bottom: the two flags from the environment (lines 27-32), the
  change of the environment on macOS (lines 36-38; \<^verbatim>\<open>platform_system\<close> and
  \<^verbatim>\<open>mac_ver\<close> are what \<^verbatim>\<open>platform.system()\<close> and
  \<^verbatim>\<open>platform.mac_ver()[0]\<close> return), the lists, and the call of \<^verbatim>\<open>setup\<close>. The
  result holds the globals as well, which the compile hook below reads.
\<close>

definition setup_py ::
  "string \<Rightarrow> string \<Rightarrow> string \<Rightarrow> os_state \<Rightarrow> error + globals \<times> setup_args" where
  "setup_py numpy_include platform_system mac_ver os =
     (let use_cuda = fst (check_for_flag (environ os) ''WITH_CUDA''
                            (Str ''Compiling with CUDA support'')
                            (Str ''Compiling without CUDA support. To enable CUDA use:''));
          trace = fst (check_for_flag (environ os) ''TRACE''
                         (Str (''Compiling with trace enabled for Bresenham'' @ [CHR 0x27] @
                               ''s Line''))
                         (Str (''Compiling without trace enabled for Bresenham'' @ [CHR 0x27] @
                               ''s Line'')));
          os' = (if lower platform_system = ''darwin''
                 then os\<lparr>environ := (environ os)(''MACOSX_DEPLOYMENT_TARGET'' \<mapsto> mac_ver,
                                                     ''CC'' \<mapsto> ''c++'')\<rparr>
                 else os)
      in case assemble use_cuda trace numpy_include os' of
           Inl e \<Rightarrow> Inl e
         | Inr g \<Rightarrow>
            (case setup_call use_cuda g of
               Inl e \<Rightarrow> Inl e
             | Inr st \<Rightarrow> Inr (g, st)))"

section \<open>custom_build_ext: the compile hook (lines 93-114)\<close>

text \<open>
  The compiler object of the toolchain: \<^verbatim>\<open>compiler_so\<close> is the command line of the
  active compiler, \<^verbatim>\<open>src_extensions\<close> the extensions it accepts. The toolchain's
  own \<^verbatim>\<open>_compile\<close> (\<^verbatim>\<open>super_compile\<close>) and \<^verbatim>\<open>split_quoted\<close>, which
  \<^verbatim>\<open>set_executable\<close> applies to a string, are parameters. \<^verbatim>\<open>super_compile\<close>
  reads the compiler object and its arguments and either returns or raises
  \<^verbatim>\<open>CompileError\<close> with a message; it does not assign \<^verbatim>\<open>compiler_so\<close>. Each of
  its calls is recorded in \<^verbatim>\<open>invoked\<close>, with the compiler that was active and the
  arguments it was given, so that what a call observed can be stated.
\<close>

record compile_args =
  a_obj :: string
  a_src :: string
  a_ext :: string
  a_cc_args :: "string list"
  a_extra_postargs :: "string list"
  a_pp_opts :: "string list"

record invocation =
  inv_compiler_so :: "string list"
  inv_args :: compile_args

record ccompiler =
  compiler_so :: "string list"
  src_extensions :: "string list"
  invoked :: "invocation list"

record toolchain =
  split_quoted :: "string \<Rightarrow> string list"
  super_compile :: "ccompiler \<Rightarrow> compile_args \<Rightarrow> string option"

text \<open>
  Lines 99-100 of \<^verbatim>\<open>_customize_compiler_for_nvcc\<close>: the compiler with
  \<^verbatim>\<open>.cu\<close> accepted, and the captured \<^verbatim>\<open>default_compiler_so\<close>.
\<close>

definition customize_compiler_for_nvcc :: "ccompiler \<Rightarrow> ccompiler \<times> string list" where
  "customize_compiler_for_nvcc c =
     (c\<lparr>src_extensions := src_extensions c @ [''.cu'']\<rparr>, compiler_so c)"

text \<open>
  Lines 103-112, the nested \<^verbatim>\<open>_compile\<close>. It returns the compiler object as the
  call leaves it, and the exception if one was raised. The assignment of line 112 is
  reached only when \<^verbatim>\<open>super_compile\<close> returned.
\<close>

definition custom_compile ::
  "globals \<Rightarrow> string list \<Rightarrow> toolchain \<Rightarrow> ccompiler \<Rightarrow> compile_args \<Rightarrow> error option \<times> ccompiler" where
  "custom_compile g default_compiler_so tc c a =
     (let ext_type = snd (splitext (a_src a))
      in case (if ext_type = ''.cu'' then
                 (case CUDA g of
                    None \<Rightarrow> Inl (NameError ''CUDA'')
                  | Some cfg \<Rightarrow>
                     Inr (c\<lparr>compiler_so := split_quoted tc (cfg_nvcc cfg)\<rparr>, nvcc_flags g))
               else Inr (c\<lparr>compiler_so := default_compiler_so\<rparr>, compiler_flags g)) of
           Inl e \<Rightarrow> (Some e, c)
         | Inr (c1, postargs) \<Rightarrow>
            (let a' = a\<lparr>a_extra_postargs := postargs\<rparr>;
                 c2 = c1\<lparr>invoked := invoked c1 @
                                   [\<lparr>inv_compiler_so = compiler_so c1, inv_args = a'\<rparr>]\<rparr>
             in case super_compile tc c1 a' of
                  Some m \<Rightarrow> (Some (CompileError m), c2)
                | None \<Rightarrow> (None, c2\<lparr>compiler_so := default_compiler_so\<rparr>)))"

text \<open>
  The toolchain compiles the sources one after the other through the hook; an exception
  ends the build.
\<close>

fun compile_all ::
  "globals \<Rightarrow> string list \<Rightarrow> toolchain \<Rightarrow> ccompiler \<Rightarrow> compile_args list \<Rightarrow> error option \<times> ccompiler" where
  "compile_all g d tc c [] = (None, c)"
| "compile_all g d tc c (a # as) =
     (case custom_compile g d tc c a of
        (Some e, c') \<Rightarrow> (Some e, c')
      | (None, c') \<Rightarrow> compile_all g d tc c' as)"

text \<open>Lines 94-96: \<^verbatim>\<open>build_extensions\<close> installs the hook, then the sources are compiled.\<close>

definition build_extensions ::
  "globals \<Rightarrow> toolchain \<Rightarrow> ccompiler \<Rightarrow> compile_args list \<Rightarrow> error option \<times> ccompiler" where
  "build_extensions g tc c as =
     (let (c1, default_compiler_so) = customize_compiler_for_nvcc c
      in compile_all g default_compiler_so tc c1 as)"

section \<open>Example states\<close>

text \<open>
  Concrete filesystems, environments, toolchains and compile calls on which the
  theorems below are evaluated. \<^verbatim>\<open>toolkit_at\<close> lists the four paths of a toolkit
  installed under a root.
\<close>

definition toolkit_at :: "string \<Rightarrow> string list" where
  "toolkit_at root = [root, root @ ''/bin/nvcc'', root @ ''/include'', root @ ''/lib64'']"

definition os_pinned :: os_state where
  "os_pinned =
     \<lparr>environ = [''CUDAHOME'' \<mapsto> ''/opt/cuda'', ''PATH'' \<mapsto> ''/usr/bin:/srv/cuda/bin''],
      isdir = (\<lambda>p. p \<in> set [''/usr/local/cuda-10.2'', ''/usr/local/cuda'']),
      exists = (\<lambda>p. p \<in> set (toolkit_at ''/usr/local/cuda-10.2'' @ toolkit_at ''/usr/local/cuda'' @
                               toolkit_at ''/opt/cuda'' @ toolkit_at ''/srv/cuda'')),
      getcwd = ''/home/build''\<rparr>"

definition os_unversioned :: os_state where
  "os_unversioned =
     \<lparr>environ = [''CUDAHOME'' \<mapsto> ''/opt/cuda'', ''PATH'' \<mapsto> ''/usr/bin:/srv/cuda/bin''],
      isdir = (\<lambda>p. p \<in> set [''/usr/local/cuda'']),
      exists = (\<lambda>p. p \<in> set (toolkit_at ''/usr/local/cuda'' @ toolkit_at ''/opt/cuda'' @
                               toolkit_at ''/srv/cuda'')),
      getcwd = ''/home/build''\<rparr>"

definition os_cudahome :: os_state where
  "os_cudahome =
     \<lparr>environ = [''CUDAHOME'' \<mapsto> ''/opt/cuda'', ''PATH'' \<mapsto> ''/usr/bin:/srv/cuda/bin''],
      isdir = (\<lambda>p. False),
      exists = (\<lambda>p. p \<in> set (toolkit_at ''/opt/cuda'' @ toolkit_at ''/srv/cuda'')),
      getcwd = ''/home/build''\<rparr>"

definition os_path :: os_state where
  "os_path =
     \<lparr>environ = [''PATH'' \<mapsto> ''/usr/bin:/srv/cuda/bin''],
      isdir = (\<lambda>p. False),
      exists = (\<lambda>p. p \<in> set (toolkit_at ''/srv/cuda'')),
      getcwd = ''/home/build''\<rparr>"

definition os_no_toolkit :: os_state where
  "os_no_toolkit =
     \<lparr>environ = [''PATH'' \<mapsto> ''/usr/bin:/bin''],
      isdir = (\<lambda>p. False),
      exists = (\<lambda>p. False),
      getcwd = ''/home/build''\<rparr>"

definition os_no_path :: os_state where
  "os_no_path =
     \<lparr>environ = [''WITH_CUDA'' \<mapsto> ''ON''],
      isdir = (\<lambda>p. False),
      exists = (\<lambda>p. False),
      getcwd = ''/home/build''\<rparr>"

definition os_no_include :: os_state where
  "os_no_include =
     \<lparr>environ = [''PATH'' \<mapsto> ''/usr/bin:/bin''],
      isdir = (\<lambda>p. p \<in> set [''/usr/local/cuda'']),
      exists = (\<lambda>p. p \<in> set [''/usr/local/cuda'', ''/usr/local/cuda/bin/nvcc'',
                               ''/usr/local/cuda/lib64'']),
      getcwd = ''/home/build''\<rparr>"

definition os_bad_cudahome :: os_state where
  "os_bad_cudahome =
     \<lparr>environ = [''CUDAHOME'' \<mapsto> ''/nonexistent'', ''PATH'' \<mapsto> ''/usr/bin:/srv/cuda/bin''],
      isdir = (\<lambda>p. False),
      exists = (\<lambda>p. p \<in> set (toolkit_at ''/srv/cuda'')),
      getcwd = ''/home/build''\<rparr>"

definition cuda_globals :: globals where
  "cuda_globals =
     (case assemble True False ''/usr/lib/python3/dist-packages/numpy/core/include'' os_unversioned of
        Inr g \<Rightarrow> g
      | Inl e \<Rightarrow> init_globals [])"

text \<open>
  A toolchain whose compile step succeeds only when it is handed the compiler and the
  flags that belong to the source: \<^verbatim>\<open>nvcc\<close> and \<^verbatim>\<open>nvcc_flags\<close> for a
  \<^verbatim>\<open>.cu\<close> source, the host compiler and \<^verbatim>\<open>compiler_flags\<close> for any other.
\<close>

definition tc_checking :: toolchain where
  "tc_checking =
     \<lparr>split_quoted = (\<lambda>s. [s]),
      super_compile = (\<lambda>c a.
        if snd (splitext (a_src a)) = ''.cu'' then
          (if compiler_so c = [''/usr/local/cuda/bin/nvcc''] \<and>
              a_extra_postargs a = nvcc_flags cuda_globals
           then None else Some ''kernel not compiled by nvcc with nvcc_flags'')
        else
          (if compiler_so c = [''c++'', ''-fPIC''] \<and>
              a_extra_postargs a = compiler_flags cuda_globals
           then None else Some ''host source not compiled by c++ with compiler_flags''))\<rparr>"

text \<open>A toolchain whose compile step always fails.\<close>

definition tc_fail :: toolchain where
  "tc_fail = \<lparr>split_quoted = (\<lambda>s. [s]), super_compile = (\<lambda>c a. Some ''exit status 1'')\<rparr>"

definition host_compiler :: ccompiler where
  "host_compiler = \<lparr>compiler_so = [''c++'', ''-fPIC''], src_extensions = [''.c'', ''.cpp''], invoked = []\<rparr>"

definition args_for :: "string \<Rightarrow> compile_args" where
  "args_for s = \<lparr>a_obj = fst (splitext s) @ ''.o'', a_src = s, a_ext = snd (splitext s),
                 a_cc_args = [''-I../''], a_extra_postargs = [''-w'', ''-std=c++11'', ''-O3''],
                 a_pp_opts = [''-I../'']\<rparr>"

definition after_host :: ccompiler where
  "after_host =
     snd (custom_compile cuda_globals (compiler_so host_compiler) tc_checking
            (fst (customize_compiler_for_nvcc host_compiler)) (args_for ''host.cpp''))"

definition after_kernel :: ccompiler where
  "after_kernel =
     snd (custom_compile cuda_globals (compiler_so host_compiler) tc_checking after_host
            (args_for ''kernel.cu''))"

section \<open>The flag resolver\<close>

lemma lower_char_o: "lower_char c = CHR ''o'' \<longleftrightarrow> c = CHR ''o'' \<or> c = CHR ''O''"
  by (auto simp: lower_char_def split: if_splits)

lemma lower_char_n: "lower_char c = CHR ''n'' \<longleftrightarrow> c = CHR ''n'' \<or> c = CHR ''N''"
  by (auto simp: lower_char_def split: if_splits)

lemma lower_on: "lower v = ''on'' \<longleftrightarrow> v \<in> {''on'', ''On'', ''oN'', ''ON''}"
proof (cases v)
  case Nil
  then show ?thesis by (simp add: lower_def)
next
  case (Cons a w)
  show ?thesis
  proof (cases w)
    case Nil
    with \<open>v = a # w\<close> show ?thesis by (simp add: lower_def)
  next
    case (Cons b u)
    with \<open>v = a # w\<close> show ?thesis
      by (cases u) (auto simp: lower_def lower_char_o lower_char_n)
  qed
qed

lemma check_for_flag_fst:
  "fst (check_for_flag env flag_str truemsg falsemsg) =
     (case env flag_str of Some v \<Rightarrow> lower v = ''on'' | None \<Rightarrow> False)"
  by (simp add: check_for_flag_def Let_def)

text \<open>
  C2. The flag resolver reports a flag enabled exactly when the variable is set and its
  value, lowered, is the string \<^verbatim>\<open>on\<close>: the four spellings \<^verbatim>\<open>on\<close>,
  \<^verbatim>\<open>On\<close>, \<^verbatim>\<open>oN\<close> and \<^verbatim>\<open>ON\<close>, and no other value. An unset variable
  is disabled. The lookup is guarded by the membership test, so the function has no
  failing branch: it is total, and its result is this boolean with the printed lines.
\<close>

theorem check_for_flag_enabled_iff:
  "(fst (check_for_flag env flag_str truemsg falsemsg) \<longleftrightarrow>
      (\<exists>v. env flag_str = Some v \<and> lower v = ''on'')) \<and>
   (fst (check_for_flag env flag_str truemsg falsemsg) \<longleftrightarrow>
      env flag_str \<in> {Some ''on'', Some ''On'', Some ''oN'', Some ''ON''}) \<and>
   lower ''ON'' = ''on'' \<and> lower ''On'' = ''on'' \<and> lower ''on'' = ''on''"
proof -
  have "fst (check_for_flag env flag_str truemsg falsemsg) \<longleftrightarrow>
          (\<exists>v. env flag_str = Some v \<and> lower v = ''on'')"
    by (simp add: check_for_flag_fst split: option.split)
  moreover have "(\<exists>v. env flag_str = Some v \<and> lower v = ''on'') \<longleftrightarrow>
          env flag_str \<in> {Some ''on'', Some ''On'', Some ''oN'', Some ''ON''}"
    by (auto simp: lower_on)
  moreover have "lower ''ON'' = ''on'' \<and> lower ''On'' = ''on'' \<and> lower ''on'' = ''on''"
    by (simp add: lower_on)
  ultimately show ?thesis by blast
qed

theorem check_for_flag_enabled_iff_witness:
  "fst (check_for_flag [''WITH_CUDA'' \<mapsto> ''On''] ''WITH_CUDA'' (Str ''yes'') PyFalse) \<and>
   \<not> fst (check_for_flag [''WITH_CUDA'' \<mapsto> ''1''] ''WITH_CUDA'' (Str ''yes'') PyFalse) \<and>
   \<not> fst (check_for_flag [''WITH_CUDA'' \<mapsto> ''On''] ''TRACE'' PyFalse (Str ''no''))"
  using check_for_flag_enabled_iff [of "[''WITH_CUDA'' \<mapsto> ''On'']" "''WITH_CUDA''" "Str ''yes''" PyFalse]
        check_for_flag_enabled_iff [of "[''WITH_CUDA'' \<mapsto> ''1'']" "''WITH_CUDA''" "Str ''yes''" PyFalse]
        check_for_flag_enabled_iff [of "[''WITH_CUDA'' \<mapsto> ''On'']" "''TRACE''" PyFalse "Str ''no''"]
  by (simp add: lower_def lower_char_def)

section \<open>The toolkit locator\<close>

lemma find_in_dirs_filter:
  "find_in_dirs os name dirs =
     (case filter (\<lambda>d. exists os (pjoin d [name])) dirs of
        [] \<Rightarrow> None
      | d # _ \<Rightarrow> Some (abspath os (pjoin d [name])))"
  by (induction dirs) (simp_all add: Let_def)

lemma check_items_filter:
  "check_items os kvs =
     (case filter (\<lambda>(k, v). \<not> exists os v) kvs of
        [] \<Rightarrow> None
      | (k, v) # _ \<Rightarrow>
          Some (EnvironmentError (''The CUDA '' @ k @ '' path could not be located in '' @ v)))"
  by (induction kvs) auto

lemma pjoin_bin_nvcc_pinned:
  "pjoin ''/usr/local/cuda-10.2'' [''bin'', ''nvcc''] = ''/usr/local/cuda-10.2/bin/nvcc''"
  by (simp add: pjoin_def join_step_def startswith_def endswith_def)

lemma pjoin_bin_nvcc_unversioned:
  "pjoin ''/usr/local/cuda'' [''bin'', ''nvcc''] = ''/usr/local/cuda/bin/nvcc''"
  by (simp add: pjoin_def join_step_def startswith_def endswith_def)

text \<open>
  C4. \<^verbatim>\<open>locate_cuda\<close> takes its root from the first of four sources that gives
  one, in this order: the directory \<^verbatim>\<open>/usr/local/cuda-10.2\<close> if it is a directory;
  else \<^verbatim>\<open>/usr/local/cuda\<close> if it is a directory; else the value of
  \<^verbatim>\<open>CUDAHOME\<close> if the variable is set; else the first directory of \<^verbatim>\<open>PATH\<close>
  that holds \<^verbatim>\<open>nvcc\<close>, the root being the parent of the parent of that binary.
  In each case the result is the check of that root alone: nothing of a later source
  enters it.
\<close>

theorem locate_cuda_strategy_order:
  "(isdir os ''/usr/local/cuda-10.2'' \<longrightarrow>
      locate_cuda os = check_config os ''/usr/local/cuda-10.2'' ''/usr/local/cuda-10.2/bin/nvcc'') \<and>
   (\<not> isdir os ''/usr/local/cuda-10.2'' \<and> isdir os ''/usr/local/cuda'' \<longrightarrow>
      locate_cuda os = check_config os ''/usr/local/cuda'' ''/usr/local/cuda/bin/nvcc'') \<and>
   (\<not> isdir os ''/usr/local/cuda-10.2'' \<and> \<not> isdir os ''/usr/local/cuda'' \<and>
    environ os ''CUDAHOME'' = Some h \<longrightarrow>
      locate_cuda os = check_config os h (pjoin h [''bin'', ''nvcc''])) \<and>
   (\<not> isdir os ''/usr/local/cuda-10.2'' \<and> \<not> isdir os ''/usr/local/cuda'' \<and>
    environ os ''CUDAHOME'' = None \<and> environ os ''PATH'' = Some path \<longrightarrow>
      locate_cuda os =
        (case filter (\<lambda>d. exists os (pjoin d [''nvcc''])) (split CHR '':'' path) of
           [] \<Rightarrow> Inl (EnvironmentError
                        ''nvcc binary not found. Set $CUDAHOME or add nvcc to $PATH.'')
         | d # _ \<Rightarrow>
             check_config os (dirname (dirname (abspath os (pjoin d [''nvcc'']))))
               (abspath os (pjoin d [''nvcc'']))))"
proof -
  have pinned: "isdir os ''/usr/local/cuda-10.2'' \<Longrightarrow>
      locate_cuda os = check_config os ''/usr/local/cuda-10.2'' ''/usr/local/cuda-10.2/bin/nvcc''"
    by (simp add: locate_cuda_def candidate_root_def pjoin_bin_nvcc_pinned)
  have unversioned: "\<not> isdir os ''/usr/local/cuda-10.2'' \<Longrightarrow> isdir os ''/usr/local/cuda'' \<Longrightarrow>
      locate_cuda os = check_config os ''/usr/local/cuda'' ''/usr/local/cuda/bin/nvcc''"
    by (simp add: locate_cuda_def candidate_root_def pjoin_bin_nvcc_unversioned)
  have cudahome: "\<not> isdir os ''/usr/local/cuda-10.2'' \<Longrightarrow> \<not> isdir os ''/usr/local/cuda'' \<Longrightarrow>
      environ os ''CUDAHOME'' = Some h \<Longrightarrow>
      locate_cuda os = check_config os h (pjoin h [''bin'', ''nvcc''])"
    by (simp add: locate_cuda_def candidate_root_def)
  have scan: "\<not> isdir os ''/usr/local/cuda-10.2'' \<Longrightarrow> \<not> isdir os ''/usr/local/cuda'' \<Longrightarrow>
      environ os ''CUDAHOME'' = None \<Longrightarrow> environ os ''PATH'' = Some path \<Longrightarrow>
      locate_cuda os =
        (case filter (\<lambda>d. exists os (pjoin d [''nvcc''])) (split CHR '':'' path) of
           [] \<Rightarrow> Inl (EnvironmentError
                        ''nvcc binary not found. Set $CUDAHOME or add nvcc to $PATH.'')
         | d # _ \<Rightarrow>
             check_config os (dirname (dirname (abspath os (pjoin d [''nvcc'']))))
               (abspath os (pjoin d [''nvcc''])))"
    by (simp add: locate_cuda_def candidate_root_def find_in_path_def find_in_dirs_filter
        split: list.split)
  from pinned unversioned cudahome scan show ?thesis by blast
qed

lemmas path_eval = pjoin_def join_step_def startswith_def endswith_def abspath_def
  normpath_def dirname_def rfind_def rstrip_def

lemmas toolkit_eval = check_config_def items_def toolkit_at_def

text \<open>
  The four cases on concrete states. In \<^verbatim>\<open>os_pinned\<close> every source has a toolkit
  and the pinned directory wins; in \<^verbatim>\<open>os_cudahome\<close> \<^verbatim>\<open>CUDAHOME\<close> wins over
  the toolkit on \<^verbatim>\<open>PATH\<close>.
\<close>

theorem locate_cuda_strategy_order_witness:
  "locate_cuda os_pinned =
     Inr \<lparr>cfg_home = ''/usr/local/cuda-10.2'', cfg_nvcc = ''/usr/local/cuda-10.2/bin/nvcc'',
          cfg_include = ''/usr/local/cuda-10.2/include'',
          cfg_lib64 = ''/usr/local/cuda-10.2/lib64''\<rparr> \<and>
   locate_cuda os_unversioned =
     Inr \<lparr>cfg_home = ''/usr/local/cuda'', cfg_nvcc = ''/usr/local/cuda/bin/nvcc'',
          cfg_include = ''/usr/local/cuda/include'', cfg_lib64 = ''/usr/local/cuda/lib64''\<rparr> \<and>
   locate_cuda os_cudahome =
     Inr \<lparr>cfg_home = ''/opt/cuda'', cfg_nvcc = ''/opt/cuda/bin/nvcc'',
          cfg_include = ''/opt/cuda/include'', cfg_lib64 = ''/opt/cuda/lib64''\<rparr> \<and>
   locate_cuda os_path =
     Inr \<lparr>cfg_home = ''/srv/cuda'', cfg_nvcc = ''/srv/cuda/bin/nvcc'',
          cfg_include = ''/srv/cuda/include'', cfg_lib64 = ''/srv/cuda/lib64''\<rparr>"
proof -
  have "locate_cuda os_pinned =
     Inr \<lparr>cfg_home = ''/usr/local/cuda-10.2'', cfg_nvcc = ''/usr/local/cuda-10.2/bin/nvcc'',
          cfg_include = ''/usr/local/cuda-10.2/include'',
          cfg_lib64 = ''/usr/local/cuda-10.2/lib64''\<rparr>"
    using locate_cuda_strategy_order [of os_pinned]
    by (simp add: os_pinned_def toolkit_eval path_eval)
  moreover have "locate_cuda os_unversioned =
     Inr \<lparr>cfg_home = ''/usr/local/cuda'', cfg_nvcc = ''/usr/local/cuda/bin/nvcc'',
          cfg_include = ''/usr/local/cuda/include'', cfg_lib64 = ''/usr/local/cuda/lib64''\<rparr>"
    using locate_cuda_strategy_order [of os_unversioned]
    by (simp add: os_unversioned_def toolkit_eval path_eval)
  moreover have "locate_cuda os_cudahome =
     Inr \<lparr>cfg_home = ''/opt/cuda'', cfg_nvcc = ''/opt/cuda/bin/nvcc'',
          cfg_include = ''/opt/cuda/include'', cfg_lib64 = ''/opt/cuda/lib64''\<rparr>"
    using locate_cuda_strategy_order [of os_cudahome "''/opt/cuda''"]
    by (simp add: os_cudahome_def toolkit_eval path_eval)
  moreover have "locate_cuda os_path =
     Inr \<lparr>cfg_home = ''/srv/cuda'', cfg_nvcc = ''/srv/cuda/bin/nvcc'',
          cfg_include = ''/srv/cuda/include'', cfg_lib64 = ''/srv/cuda/lib64''\<rparr>"
    using locate_cuda_strategy_order [of os_path _ "''/usr/bin:/srv/cuda/bin''"]
    by (simp add: os_path_def toolkit_eval path_eval)
  ultimately show ?thesis by blast
qed

text \<open>
  C5. No source gives a root: neither fixed directory exists and \<^verbatim>\<open>CUDAHOME\<close> is
  unset. When \<^verbatim>\<open>PATH\<close> is unset as well, the lookup \<^verbatim>\<open>os.environ["PATH"]\<close> of
  line 60 raises \<^verbatim>\<open>KeyError\<close>, and the message that names \<^verbatim>\<open>CUDAHOME\<close> is
  never produced.
\<close>

theorem locate_cuda_path_unset:
  "locate_cuda os_no_path = Inl (KeyError ''PATH'')"
  by (simp add: locate_cuda_def candidate_root_def os_no_path_def)

text \<open>
  With \<^verbatim>\<open>PATH\<close> set and \<^verbatim>\<open>nvcc\<close> in none of its directories, the failure is the
  \<^verbatim>\<open>EnvironmentError\<close> whose message names \<^verbatim>\<open>CUDAHOME\<close>.
\<close>

theorem locate_cuda_not_found:
  assumes "\<not> isdir os ''/usr/local/cuda-10.2''" and "\<not> isdir os ''/usr/local/cuda''"
    and "environ os ''CUDAHOME'' = None" and "environ os ''PATH'' = Some path"
    and "\<forall>d \<in> set (split CHR '':'' path). \<not> exists os (pjoin d [''nvcc''])"
  shows "locate_cuda os =
           Inl (EnvironmentError ''nvcc binary not found. Set $CUDAHOME or add nvcc to $PATH.'')"
proof -
  from assms(5) have "filter (\<lambda>d. exists os (pjoin d [''nvcc''])) (split CHR '':'' path) = []"
    by (simp add: filter_empty_conv)
  with assms(1-4) show ?thesis
    by (simp add: locate_cuda_def candidate_root_def find_in_path_def find_in_dirs_filter)
qed

theorem locate_cuda_not_found_witness:
  "locate_cuda os_no_toolkit =
     Inl (EnvironmentError ''nvcc binary not found. Set $CUDAHOME or add nvcc to $PATH.'')"
  using locate_cuda_not_found [of os_no_toolkit "''/usr/bin:/bin''"]
  by (simp add: os_no_toolkit_def)

lemma check_config_filter:
  "check_config os home nvcc =
     (case filter (\<lambda>(k, v). \<not> exists os v)
             [(''home'', home), (''nvcc'', nvcc), (''include'', pjoin home [''include'']),
              (''lib64'', pjoin home [''lib64''])] of
        [] \<Rightarrow> Inr \<lparr>cfg_home = home, cfg_nvcc = nvcc, cfg_include = pjoin home [''include''],
                    cfg_lib64 = pjoin home [''lib64'']\<rparr>
      | (k, v) # _ \<Rightarrow>
          Inl (EnvironmentError (''The CUDA '' @ k @ '' path could not be located in '' @ v)))"
  unfolding check_config_def Let_def check_items_filter items_def
  by (simp split: list.split)

text \<open>
  C6. Once a root is chosen, the four paths \<^verbatim>\<open>home\<close>, \<^verbatim>\<open>nvcc\<close>,
  \<^verbatim>\<open>include\<close> and \<^verbatim>\<open>lib64\<close> are checked in this order. If all exist the
  dictionary is returned; otherwise \<^verbatim>\<open>locate_cuda\<close> raises an
  \<^verbatim>\<open>EnvironmentError\<close> whose message names the first missing path and its key. A
  root that lacks only its include directory gives the message for \<^verbatim>\<open>include\<close>.
\<close>

theorem locate_cuda_names_missing_path:
  assumes "candidate_root os = Inr (home, nvcc)"
  shows "locate_cuda os =
           (case filter (\<lambda>(k, v). \<not> exists os v)
                   [(''home'', home), (''nvcc'', nvcc), (''include'', pjoin home [''include'']),
                    (''lib64'', pjoin home [''lib64''])] of
              [] \<Rightarrow> Inr \<lparr>cfg_home = home, cfg_nvcc = nvcc,
                          cfg_include = pjoin home [''include''],
                          cfg_lib64 = pjoin home [''lib64'']\<rparr>
            | (k, v) # _ \<Rightarrow>
                Inl (EnvironmentError
                       (''The CUDA '' @ k @ '' path could not be located in '' @ v))) \<and>
         (exists os home \<and> exists os nvcc \<and> \<not> exists os (pjoin home [''include'']) \<longrightarrow>
            locate_cuda os =
              Inl (EnvironmentError
                     (''The CUDA include path could not be located in '' @
                      pjoin home [''include''])))"
proof -
  from assms have eq: "locate_cuda os = check_config os home nvcc"
    by (simp add: locate_cuda_def)
  have "exists os home \<Longrightarrow> exists os nvcc \<Longrightarrow> \<not> exists os (pjoin home [''include'']) \<Longrightarrow>
          check_config os home nvcc =
            Inl (EnvironmentError
                   (''The CUDA include path could not be located in '' @ pjoin home [''include'']))"
    by (simp add: check_config_filter)
  with eq show ?thesis
    by (simp only: check_config_filter) blast
qed

theorem locate_cuda_names_missing_path_witness:
  "candidate_root os_no_include = Inr (''/usr/local/cuda'', ''/usr/local/cuda/bin/nvcc'') \<and>
   locate_cuda os_no_include =
     Inl (EnvironmentError
            ''The CUDA include path could not be located in /usr/local/cuda/include'')"
proof -
  have c: "candidate_root os_no_include = Inr (''/usr/local/cuda'', ''/usr/local/cuda/bin/nvcc'')"
    by (simp add: candidate_root_def os_no_include_def path_eval)
  show ?thesis
    using c locate_cuda_names_missing_path [OF c]
    by (simp add: os_no_include_def path_eval)
qed

text \<open>
  C10. Neither fixed directory exists and \<^verbatim>\<open>CUDAHOME\<close> names a path that does not
  exist. The value is taken as the root without a test, the check of the paths fails
  at \<^verbatim>\<open>home\<close> with the message that names it, the failure is not the one of a
  toolkit that was not found, and \<^verbatim>\<open>PATH\<close> has no part in the result.
\<close>

theorem locate_cuda_bad_cudahome:
  assumes "\<not> isdir os ''/usr/local/cuda-10.2''" and "\<not> isdir os ''/usr/local/cuda''"
    and "environ os ''CUDAHOME'' = Some h" and "\<not> exists os h"
  shows "candidate_root os = Inr (h, pjoin h [''bin'', ''nvcc'']) \<and>
         locate_cuda os =
           Inl (EnvironmentError (''The CUDA home path could not be located in '' @ h)) \<and>
         locate_cuda os \<noteq>
           Inl (EnvironmentError
                  ''nvcc binary not found. Set $CUDAHOME or add nvcc to $PATH.'') \<and>
         (\<forall>p. locate_cuda (os\<lparr>environ := (environ os)(''PATH'' := p)\<rparr>) = locate_cuda os)"
proof -
  from assms have c: "candidate_root os = Inr (h, pjoin h [''bin'', ''nvcc''])"
    by (simp add: candidate_root_def)
  with assms(4) have l: "locate_cuda os =
      Inl (EnvironmentError (''The CUDA home path could not be located in '' @ h))"
    by (simp add: locate_cuda_def check_config_filter)
  have "locate_cuda (os\<lparr>environ := (environ os)(''PATH'' := p)\<rparr>) = locate_cuda os" for p
  proof -
    from assms have "candidate_root (os\<lparr>environ := (environ os)(''PATH'' := p)\<rparr>) =
        Inr (h, pjoin h [''bin'', ''nvcc''])"
      by (simp add: candidate_root_def)
    with assms(4) l show ?thesis
      by (simp add: locate_cuda_def check_config_filter)
  qed
  with c l show ?thesis by simp
qed

theorem locate_cuda_bad_cudahome_witness:
  "locate_cuda os_bad_cudahome =
     Inl (EnvironmentError ''The CUDA home path could not be located in /nonexistent'') \<and>
   find_in_path os_bad_cudahome ''nvcc'' ''/usr/bin:/srv/cuda/bin'' = Some ''/srv/cuda/bin/nvcc''"
  using locate_cuda_bad_cudahome [of os_bad_cudahome "''/nonexistent''"]
  by (simp add: os_bad_cudahome_def toolkit_at_def find_in_path_def path_eval)

section \<open>The flag lists and the extension\<close>

lemma assemble_cuda_located:
  assumes "locate_cuda os = Inr c"
  shows "assemble True trace numpy_include os =
     Inr ((init_globals numpy_include)
       \<lparr>compiler_flags := compiler_flags (init_globals numpy_include) @
          [''-DUSE_CUDA=1'', ''-DCHUNK_SIZE=262144'', ''-DNUM_THREADS=256''] @
          (if trace then [''-D_MAKE_TRACE_MAP=1''] else []),
        nvcc_flags := nvcc_flags (init_globals numpy_include) @
          [''-DUSE_CUDA=1'', ''-DCHUNK_SIZE=262144'', ''-DNUM_THREADS=256''],
        include_dirs := include_dirs (init_globals numpy_include) @ [cfg_include c],
        sources := sources (init_globals numpy_include) @ [''../includes/kernels.cu''],
        CUDA := Some c\<rparr>)"
  using assms
  by (simp add: assemble_def Let_def CHUNK_SIZE_def NUM_THREADS_def)

lemma assemble_cuda_failed:
  assumes "locate_cuda os = Inl e"
  shows "assemble True trace numpy_include os = Inl e"
  using assms by (simp add: assemble_def Let_def)

lemma assemble_no_cuda:
  "assemble False trace numpy_include os =
     Inr ((init_globals numpy_include)
       \<lparr>compiler_flags := compiler_flags (init_globals numpy_include) @
          (if trace then [''-D_MAKE_TRACE_MAP=1''] else [])\<rparr>)"
  by (simp add: assemble_def Let_def)

text \<open>
  C7. With \<^verbatim>\<open>use_cuda\<close> enabled and the toolkit located, the same three defines
  are appended, in the same order, to \<^verbatim>\<open>compiler_flags\<close> and to
  \<^verbatim>\<open>nvcc_flags\<close>; the kernel source is appended to \<^verbatim>\<open>sources\<close>, the
  toolkit's include directory to \<^verbatim>\<open>include_dirs\<close>; and the extension names the
  toolkit's \<^verbatim>\<open>lib64\<close> directory and the library \<^verbatim>\<open>cudart\<close>.
\<close>

theorem assemble_with_cuda:
  assumes "locate_cuda os = Inr c"
  shows "\<exists>g st e.
     assemble True trace numpy_include os = Inr g \<and>
     compiler_flags g = compiler_flags (init_globals numpy_include) @
        [''-DUSE_CUDA=1'', ''-DCHUNK_SIZE=262144'', ''-DNUM_THREADS=256''] @
        (if trace then [''-D_MAKE_TRACE_MAP=1''] else []) \<and>
     nvcc_flags g = nvcc_flags (init_globals numpy_include) @
        [''-DUSE_CUDA=1'', ''-DCHUNK_SIZE=262144'', ''-DNUM_THREADS=256''] \<and>
     sources g = sources (init_globals numpy_include) @ [''../includes/kernels.cu''] \<and>
     include_dirs g = include_dirs (init_globals numpy_include) @ [cfg_include c] \<and>
     CUDA g = Some c \<and>
     setup_call True g = Inr st \<and> ext_modules st = [e] \<and>
     ext_sources e = sources g \<and> extra_compile_args e = compiler_flags g \<and>
     ext_include_dirs e = include_dirs g \<and>
     library_dirs e = [cfg_lib64 c, ''/usr/lib/x86_64-linux-gnu''] \<and>
     libraries e = [''cudart''] \<and>
     runtime_library_dirs e = [cfg_lib64 c]"
  by (simp add: assemble_cuda_located [OF assms] setup_call_def)

theorem assemble_with_cuda_witness:
  "\<exists>g st e.
     assemble True True ''/np/include'' os_cudahome = Inr g \<and>
     compiler_flags g = [''-w'', ''-std=c++11'', ''-O3'', ''-DUSE_CUDA=1'',
                         ''-DCHUNK_SIZE=262144'', ''-DNUM_THREADS=256'', ''-D_MAKE_TRACE_MAP=1''] \<and>
     nvcc_flags g = [''-arch=sm_86'', ''--ptxas-options=-v'', ''-c'', ''--compiler-options'',
                     [CHR 0x27] @ ''-fPIC'' @ [CHR 0x27], ''-w'', ''-std=c++11'', ''-O3'',
                     ''-DUSE_CUDA=1'', ''-DCHUNK_SIZE=262144'', ''-DNUM_THREADS=256''] \<and>
     sources g = [''RangeLibc.pyx'', ''../vendor/lodepng/lodepng.cpp'', ''../includes/kernels.cu''] \<and>
     include_dirs g = [''../'', ''/np/include'', ''/opt/cuda/include''] \<and>
     setup_call True g = Inr st \<and> ext_modules st = [e] \<and>
     library_dirs e = [''/opt/cuda/lib64'', ''/usr/lib/x86_64-linux-gnu''] \<and>
     libraries e = [''cudart''] \<and>
     runtime_library_dirs e = [''/opt/cuda/lib64'']"
proof -
  have l: "locate_cuda os_cudahome =
     Inr \<lparr>cfg_home = ''/opt/cuda'', cfg_nvcc = ''/opt/cuda/bin/nvcc'',
          cfg_include = ''/opt/cuda/include'', cfg_lib64 = ''/opt/cuda/lib64''\<rparr>"
    by (simp add: locate_cuda_def candidate_root_def os_cudahome_def toolkit_eval path_eval)
  from assemble_with_cuda [OF l, of True "''/np/include''"]
  show ?thesis by (auto simp: init_globals_def)
qed

text \<open>
  C8. The run with \<^verbatim>\<open>trace\<close> enabled differs from the run with it disabled in one
  thing: \<^verbatim>\<open>-D_MAKE_TRACE_MAP=1\<close> is appended once to \<^verbatim>\<open>compiler_flags\<close>.
  \<^verbatim>\<open>nvcc_flags\<close> is the same in both, and with \<^verbatim>\<open>trace\<close> disabled neither
  list holds the define.
\<close>

theorem trace_flag_host_only:
  "(case assemble use_cuda False numpy_include os of
      Inl e \<Rightarrow> assemble use_cuda True numpy_include os = Inl e
    | Inr g \<Rightarrow>
        assemble use_cuda True numpy_include os =
          Inr (g\<lparr>compiler_flags := compiler_flags g @ [''-D_MAKE_TRACE_MAP=1'']\<rparr>) \<and>
        ''-D_MAKE_TRACE_MAP=1'' \<notin> set (compiler_flags g) \<and>
        ''-D_MAKE_TRACE_MAP=1'' \<notin> set (nvcc_flags g))"
proof (cases use_cuda)
  case False
  then show ?thesis
    by (simp add: assemble_no_cuda init_globals_def)
next
  case True
  show ?thesis
  proof (cases "locate_cuda os")
    case (Inl e)
    with True show ?thesis by (simp add: assemble_cuda_failed)
  next
    case (Inr c)
    with True show ?thesis by (simp add: assemble_cuda_located init_globals_def)
  qed
qed

theorem trace_flag_host_only_witness:
  "(\<exists>g g'. assemble True False ''/np/include'' os_path = Inr g \<and>
           assemble True True ''/np/include'' os_path = Inr g' \<and>
           compiler_flags g' = compiler_flags g @ [''-D_MAKE_TRACE_MAP=1''] \<and>
           nvcc_flags g' = nvcc_flags g \<and>
           count_list (compiler_flags g') ''-D_MAKE_TRACE_MAP=1'' = 1 \<and>
           count_list (nvcc_flags g') ''-D_MAKE_TRACE_MAP=1'' = 0 \<and>
           count_list (compiler_flags g) ''-D_MAKE_TRACE_MAP=1'' = 0 \<and>
           count_list (nvcc_flags g) ''-D_MAKE_TRACE_MAP=1'' = 0) \<and>
   assemble False True ''/np/include'' os_no_path =
     Inr ((init_globals ''/np/include'')
            \<lparr>compiler_flags := [''-w'', ''-std=c++11'', ''-O3'', ''-D_MAKE_TRACE_MAP=1'']\<rparr>)"
proof -
  have l: "locate_cuda os_path =
     Inr \<lparr>cfg_home = ''/srv/cuda'', cfg_nvcc = ''/srv/cuda/bin/nvcc'',
          cfg_include = ''/srv/cuda/include'', cfg_lib64 = ''/srv/cuda/lib64''\<rparr>"
    by (simp add: locate_cuda_def candidate_root_def find_in_path_def os_path_def toolkit_eval path_eval)
  have a: "assemble True False ''/np/include'' os_path =
     Inr ((init_globals ''/np/include'')
       \<lparr>compiler_flags := [''-w'', ''-std=c++11'', ''-O3'',
          ''-DUSE_CUDA=1'', ''-DCHUNK_SIZE=262144'', ''-DNUM_THREADS=256''],
        nvcc_flags := nvcc_flags (init_globals ''/np/include'') @
          [''-DUSE_CUDA=1'', ''-DCHUNK_SIZE=262144'', ''-DNUM_THREADS=256''],
        include_dirs := [''../'', ''/np/include'', ''/srv/cuda/include''],
        sources := sources (init_globals ''/np/include'') @ [''../includes/kernels.cu''],
        CUDA := Some \<lparr>cfg_home = ''/srv/cuda'', cfg_nvcc = ''/srv/cuda/bin/nvcc'',
          cfg_include = ''/srv/cuda/include'', cfg_lib64 = ''/srv/cuda/lib64''\<rparr>\<rparr>)"
    by (simp add: assemble_cuda_located [OF l] init_globals_def)
  have b: "assemble False False ''/np/include'' os_no_path = Inr (init_globals ''/np/include'')"
    by (simp add: assemble_no_cuda)
  from trace_flag_host_only [of True "''/np/include''" os_path]
       trace_flag_host_only [of False "''/np/include''" os_no_path]
  show ?thesis
    unfolding a b by (simp add: init_globals_def)
qed

text \<open>
  C9. Two runs with the same values of \<^verbatim>\<open>use_cuda\<close> and \<^verbatim>\<open>trace\<close> end with
  the same \<^verbatim>\<open>compiler_flags\<close>, \<^verbatim>\<open>nvcc_flags\<close> and \<^verbatim>\<open>sources\<close>, element
  for element. The three lists depend on the two flags alone: the runs may even differ
  in the filesystem, the environment and the include path of numpy.
\<close>

theorem assemble_deterministic:
  assumes "assemble use_cuda trace numpy_include os = Inr g"
    and "assemble use_cuda trace numpy_include' os' = Inr g'"
  shows "compiler_flags g = compiler_flags g' \<and> nvcc_flags g = nvcc_flags g' \<and>
         sources g = sources g'"
proof (cases use_cuda)
  case False
  with assms show ?thesis
    by (auto simp: assemble_no_cuda init_globals_def)
next
  case True
  from True assms(1) obtain c where "locate_cuda os = Inr c"
    by (cases "locate_cuda os") (simp_all add: assemble_cuda_failed)
  moreover from True assms(2) obtain c' where "locate_cuda os' = Inr c'"
    by (cases "locate_cuda os'") (simp_all add: assemble_cuda_failed)
  ultimately show ?thesis
    using True assms by (auto simp: assemble_cuda_located init_globals_def)
qed

theorem assemble_deterministic_witness:
  "\<exists>g g'. assemble True True ''/np/include'' os_path = Inr g \<and>
          assemble True True ''/usr/lib/numpy'' os_pinned = Inr g' \<and>
          include_dirs g \<noteq> include_dirs g' \<and>
          compiler_flags g = compiler_flags g' \<and> nvcc_flags g = nvcc_flags g' \<and>
          sources g = sources g'"
proof -
  have l: "locate_cuda os_path =
     Inr \<lparr>cfg_home = ''/srv/cuda'', cfg_nvcc = ''/srv/cuda/bin/nvcc'',
          cfg_include = ''/srv/cuda/include'', cfg_lib64 = ''/srv/cuda/lib64''\<rparr>"
    by (simp add: locate_cuda_def candidate_root_def find_in_path_def os_path_def toolkit_eval path_eval)
  have l': "locate_cuda os_pinned =
     Inr \<lparr>cfg_home = ''/usr/local/cuda-10.2'', cfg_nvcc = ''/usr/local/cuda-10.2/bin/nvcc'',
          cfg_include = ''/usr/local/cuda-10.2/include'',
          cfg_lib64 = ''/usr/local/cuda-10.2/lib64''\<rparr>"
    by (simp add: locate_cuda_def candidate_root_def os_pinned_def toolkit_eval path_eval)
  obtain g where g: "assemble True True ''/np/include'' os_path = Inr g"
    and i: "include_dirs g = [''../'', ''/np/include'', ''/srv/cuda/include'']"
    by (simp add: assemble_cuda_located [OF l] init_globals_def)
  obtain g' where g': "assemble True True ''/usr/lib/numpy'' os_pinned = Inr g'"
    and i': "include_dirs g' = [''../'', ''/usr/lib/numpy'', ''/usr/local/cuda-10.2/include'']"
    by (simp add: assemble_cuda_located [OF l'] init_globals_def)
  from assemble_deterministic [OF g g'] g g' i i'
  show ?thesis by simp
qed

section \<open>The compile hook\<close>

lemma cuda_globals_eval:
  "cuda_globals =
     \<lparr>compiler_flags = [''-w'', ''-std=c++11'', ''-O3'', ''-DUSE_CUDA=1'', ''-DCHUNK_SIZE=262144'',
                         ''-DNUM_THREADS=256''],
      nvcc_flags = [''-arch=sm_86'', ''--ptxas-options=-v'', ''-c'', ''--compiler-options'',
                    [CHR 0x27] @ ''-fPIC'' @ [CHR 0x27], ''-w'', ''-std=c++11'', ''-O3'',
                    ''-DUSE_CUDA=1'', ''-DCHUNK_SIZE=262144'', ''-DNUM_THREADS=256''],
      include_dirs = [''../'', ''/usr/lib/python3/dist-packages/numpy/core/include'',
                      ''/usr/local/cuda/include''],
      depends = [''../includes/*.h''],
      sources = [''RangeLibc.pyx'', ''../vendor/lodepng/lodepng.cpp'', ''../includes/kernels.cu''],
      CUDA = Some \<lparr>cfg_home = ''/usr/local/cuda'', cfg_nvcc = ''/usr/local/cuda/bin/nvcc'',
                   cfg_include = ''/usr/local/cuda/include'',
                   cfg_lib64 = ''/usr/local/cuda/lib64''\<rparr>\<rparr>"
  by (simp add: cuda_globals_def assemble_def init_globals_def CHUNK_SIZE_def NUM_THREADS_def
      locate_cuda_def candidate_root_def os_unversioned_def toolkit_eval path_eval)

lemma splitext_kernel_cu: "splitext ''kernel.cu'' = (''kernel'', ''.cu'')"
  by (simp add: splitext_def rfind_def)

lemma splitext_host_cpp: "splitext ''host.cpp'' = (''host'', ''.cpp'')"
  by (simp add: splitext_def rfind_def)

lemma splitext_host2_cpp: "splitext ''host2.cpp'' = (''host2'', ''.cpp'')"
  by (simp add: splitext_def rfind_def)

lemma custom_compile_host_eq:
  assumes "snd (splitext (a_src a)) \<noteq> ''.cu''"
  shows "custom_compile g d tc c a =
     (map_option CompileError
        (super_compile tc (c\<lparr>compiler_so := d\<rparr>) (a\<lparr>a_extra_postargs := compiler_flags g\<rparr>)),
      c\<lparr>compiler_so := d,
        invoked := invoked c @
          [\<lparr>inv_compiler_so = d, inv_args = a\<lparr>a_extra_postargs := compiler_flags g\<rparr>\<rparr>]\<rparr>)"
  using assms by (simp add: custom_compile_def Let_def split: option.split)

lemma custom_compile_cu_eq:
  assumes "snd (splitext (a_src a)) = ''.cu''" and "CUDA g = Some cfg"
  shows "custom_compile g d tc c a =
     (map_option CompileError
        (super_compile tc (c\<lparr>compiler_so := split_quoted tc (cfg_nvcc cfg)\<rparr>)
           (a\<lparr>a_extra_postargs := nvcc_flags g\<rparr>)),
      c\<lparr>compiler_so :=
          (case super_compile tc (c\<lparr>compiler_so := split_quoted tc (cfg_nvcc cfg)\<rparr>)
                  (a\<lparr>a_extra_postargs := nvcc_flags g\<rparr>) of
             None \<Rightarrow> d
           | Some m \<Rightarrow> split_quoted tc (cfg_nvcc cfg)),
        invoked := invoked c @
          [\<lparr>inv_compiler_so = split_quoted tc (cfg_nvcc cfg),
            inv_args = a\<lparr>a_extra_postargs := nvcc_flags g\<rparr>\<rparr>]\<rparr>)"
  using assms by (simp add: custom_compile_def Let_def split: option.split)

lemma custom_compile_cu_unbound:
  assumes "snd (splitext (a_src a)) = ''.cu''" and "CUDA g = None"
  shows "custom_compile g d tc c a = (Some (NameError ''CUDA''), c)"
  using assms by (simp add: custom_compile_def)

text \<open>
  C1. The hook assigns the captured default to \<^verbatim>\<open>compiler_so\<close> at line 112,
  after the compile step has returned. When the step raises for a \<^verbatim>\<open>.cu\<close>
  source, line 112 is not reached: for \<^verbatim>\<open>kernel.cu\<close> and a compile step that
  fails, the call ends with the \<^verbatim>\<open>CompileError\<close> and \<^verbatim>\<open>compiler_so\<close> is the
  command of \<^verbatim>\<open>nvcc\<close>, not the default \<^verbatim>\<open>c++ -fPIC\<close> that was captured.
\<close>

theorem custom_compile_error_keeps_nvcc:
  "custom_compile cuda_globals [''c++'', ''-fPIC''] tc_fail host_compiler (args_for ''kernel.cu'') =
     (Some (CompileError ''exit status 1''),
      \<lparr>compiler_so = [''/usr/local/cuda/bin/nvcc''],
       src_extensions = [''.c'', ''.cpp''],
       invoked = [\<lparr>inv_compiler_so = [''/usr/local/cuda/bin/nvcc''],
                   inv_args = (args_for ''kernel.cu'')\<lparr>a_extra_postargs := nvcc_flags cuda_globals\<rparr>\<rparr>]\<rparr>) \<and>
   compiler_so host_compiler = [''c++'', ''-fPIC''] \<and>
   compiler_so (snd (custom_compile cuda_globals [''c++'', ''-fPIC''] tc_fail host_compiler
                       (args_for ''kernel.cu''))) \<noteq> [''c++'', ''-fPIC'']"
  by (simp add: custom_compile_def cuda_globals_eval tc_fail_def host_compiler_def args_for_def
      splitext_kernel_cu)

text \<open>
  What the hook hands to the compile step, and what it makes of the outcome: the
  step is called on the compiler object with \<^verbatim>\<open>compiler_so\<close> set by the extension
  of the source (\<^verbatim>\<open>nvcc\<close> for \<^verbatim>\<open>.cu\<close>, the captured default otherwise) and
  with the flag list of that compiler in place of the flags passed in; the hook
  raises exactly the \<^verbatim>\<open>CompileError\<close> of the step, and returns when the step
  returns.
\<close>

theorem custom_compile_step:
  assumes "CUDA g = Some cfg"
  shows "fst (custom_compile g d tc c a) =
     map_option CompileError
       (super_compile tc
          (c\<lparr>compiler_so := (if snd (splitext (a_src a)) = ''.cu''
                              then split_quoted tc (cfg_nvcc cfg) else d)\<rparr>)
          (a\<lparr>a_extra_postargs := (if snd (splitext (a_src a)) = ''.cu''
                                   then nvcc_flags g else compiler_flags g)\<rparr>))"
proof (cases "snd (splitext (a_src a)) = ''.cu''")
  case True
  then show ?thesis by (simp add: custom_compile_cu_eq [OF True assms])
next
  case False
  then show ?thesis by (simp add: custom_compile_host_eq [OF False])
qed

theorem custom_compile_step_witness:
  "fst (custom_compile cuda_globals [''c++'', ''-fPIC''] tc_checking host_compiler
          (args_for ''kernel.cu'')) = None \<and>
   fst (custom_compile cuda_globals [''c++'', ''-fPIC''] tc_checking host_compiler
          (args_for ''host.cpp'')) = None \<and>
   fst (custom_compile cuda_globals [''c++'', ''-fPIC''] tc_fail host_compiler
          (args_for ''host.cpp'')) = Some (CompileError ''exit status 1'')"
proof -
  have c: "CUDA cuda_globals =
      Some \<lparr>cfg_home = ''/usr/local/cuda'', cfg_nvcc = ''/usr/local/cuda/bin/nvcc'',
            cfg_include = ''/usr/local/cuda/include'', cfg_lib64 = ''/usr/local/cuda/lib64''\<rparr>"
    by (simp add: cuda_globals_eval)
  have "fst (custom_compile cuda_globals [''c++'', ''-fPIC''] tc_checking host_compiler
          (args_for ''kernel.cu'')) = None"
    unfolding custom_compile_step [OF c]
    by (simp add: tc_checking_def args_for_def splitext_kernel_cu)
  moreover have "fst (custom_compile cuda_globals [''c++'', ''-fPIC''] tc_checking host_compiler
          (args_for ''host.cpp'')) = None"
    unfolding custom_compile_step [OF c]
    by (simp add: tc_checking_def args_for_def splitext_host_cpp)
  moreover have "fst (custom_compile cuda_globals [''c++'', ''-fPIC''] tc_fail host_compiler
          (args_for ''host.cpp'')) = Some (CompileError ''exit status 1'')"
    unfolding custom_compile_step [OF c]
    by (simp add: tc_fail_def)
  ultimately show ?thesis by simp
qed

text \<open>
  The exits of the hook that leave the default in place: after a call that returns,
  \<^verbatim>\<open>compiler_so\<close> is the captured default; after a call for a source that is not
  \<^verbatim>\<open>.cu\<close> it is the default also when the step raised, since line 109 assigns
  it before the step, and the error is the one of the step.
\<close>

theorem custom_compile_restores:
  assumes "custom_compile g d tc c a = (r, c')"
  shows "(r = None \<longrightarrow> compiler_so c' = d) \<and>
         (snd (splitext (a_src a)) \<noteq> ''.cu'' \<longrightarrow>
            compiler_so c' = d \<and>
            r = map_option CompileError
                  (super_compile tc (c\<lparr>compiler_so := d\<rparr>)
                     (a\<lparr>a_extra_postargs := compiler_flags g\<rparr>)))"
proof (cases "snd (splitext (a_src a)) = ''.cu''")
  case False
  with assms show ?thesis by (auto simp: custom_compile_host_eq)
next
  case True
  show ?thesis
  proof (cases "CUDA g")
    case None
    with True assms show ?thesis by (auto simp: custom_compile_cu_unbound)
  next
    case (Some cfg)
    with True assms show ?thesis
      by (auto simp: custom_compile_cu_eq split: option.splits)
  qed
qed

theorem custom_compile_restores_witness:
  "compiler_so (snd (custom_compile cuda_globals [''c++'', ''-fPIC''] tc_checking host_compiler
          (args_for ''kernel.cu''))) = [''c++'', ''-fPIC''] \<and>
   custom_compile cuda_globals [''c++'', ''-fPIC''] tc_fail
          (host_compiler\<lparr>compiler_so := [''/usr/local/cuda/bin/nvcc'']\<rparr>)
          (args_for ''host.cpp'') =
     (Some (CompileError ''exit status 1''),
      \<lparr>compiler_so = [''c++'', ''-fPIC''], src_extensions = [''.c'', ''.cpp''],
       invoked = [\<lparr>inv_compiler_so = [''c++'', ''-fPIC''],
                   inv_args = (args_for ''host.cpp'')\<lparr>a_extra_postargs := compiler_flags cuda_globals\<rparr>\<rparr>]\<rparr>)"
proof -
  have ok: "fst (custom_compile cuda_globals [''c++'', ''-fPIC''] tc_checking host_compiler
          (args_for ''kernel.cu'')) = None"
    by (simp add: custom_compile_def cuda_globals_eval tc_checking_def host_compiler_def
        args_for_def splitext_kernel_cu)
  have host: "snd (splitext (a_src (args_for ''host.cpp''))) \<noteq> ''.cu''"
    by (simp add: args_for_def splitext_host_cpp)
  have err: "custom_compile cuda_globals [''c++'', ''-fPIC''] tc_fail
          (host_compiler\<lparr>compiler_so := [''/usr/local/cuda/bin/nvcc'']\<rparr>)
          (args_for ''host.cpp'') =
     (Some (CompileError ''exit status 1''),
      \<lparr>compiler_so = [''c++'', ''-fPIC''], src_extensions = [''.c'', ''.cpp''],
       invoked = [\<lparr>inv_compiler_so = [''c++'', ''-fPIC''],
                   inv_args = (args_for ''host.cpp'')\<lparr>a_extra_postargs := compiler_flags cuda_globals\<rparr>\<rparr>]\<rparr>)"
    by (simp add: custom_compile_host_eq [OF host] tc_fail_def host_compiler_def)
  from ok host
    custom_compile_restores [OF surjective_pairing,
      of cuda_globals "[''c++'', ''-fPIC'']" tc_checking host_compiler "args_for ''kernel.cu''"]
    custom_compile_restores [OF err]
  show ?thesis by (simp add: err)
qed

text \<open>
  C3. From any state of the compiler: when the dispatch of a \<^verbatim>\<open>.cu\<close> source
  returned, its compile step was called with the command of \<^verbatim>\<open>nvcc\<close> and
  \<^verbatim>\<open>nvcc_flags\<close>, and the active compiler is the captured default again. The
  dispatch of a host source that follows calls the compile step on the compiler
  object with \<^verbatim>\<open>compiler_so\<close> the default and with \<^verbatim>\<open>compiler_flags\<close> in
  place of the flags passed in; its outcome is the outcome of that call.
\<close>

theorem dispatch_round_trip:
  assumes "snd (splitext (a_src a_cu)) = ''.cu''"
    and "custom_compile g d tc c a_cu = (None, c1)"
    and "snd (splitext (a_src a_h)) \<noteq> ''.cu''"
  shows "compiler_so c1 = d \<and>
         (\<exists>cfg. CUDA g = Some cfg \<and>
            super_compile tc (c\<lparr>compiler_so := split_quoted tc (cfg_nvcc cfg)\<rparr>)
              (a_cu\<lparr>a_extra_postargs := nvcc_flags g\<rparr>) = None) \<and>
         custom_compile g d tc c1 a_h =
           (map_option CompileError
              (super_compile tc (c1\<lparr>compiler_so := d\<rparr>)
                 (a_h\<lparr>a_extra_postargs := compiler_flags g\<rparr>)),
            c1\<lparr>compiler_so := d,
               invoked := invoked c1 @
                 [\<lparr>inv_compiler_so = d,
                   inv_args = a_h\<lparr>a_extra_postargs := compiler_flags g\<rparr>\<rparr>]\<rparr>)"
proof -
  from assms(1,2) obtain cfg where cfg: "CUDA g = Some cfg"
    by (cases "CUDA g") (simp_all add: custom_compile_cu_unbound)
  from assms(2) have step: "super_compile tc (c\<lparr>compiler_so := split_quoted tc (cfg_nvcc cfg)\<rparr>)
              (a_cu\<lparr>a_extra_postargs := nvcc_flags g\<rparr>) = None"
    and so: "compiler_so c1 = d"
    by (auto simp: custom_compile_cu_eq [OF assms(1) cfg])
  from cfg step so custom_compile_host_eq [OF assms(3)] show ?thesis
    by simp
qed

text \<open>
  The sequence \<^verbatim>\<open>host.cpp\<close>, \<^verbatim>\<open>kernel.cu\<close>, \<^verbatim>\<open>host2.cpp\<close> on a
  toolchain that fails unless each source gets its own compiler and flags: the build
  succeeds, and the third call observes the default compiler and the host flags.
\<close>

theorem dispatch_round_trip_witness:
  "build_extensions cuda_globals tc_checking host_compiler
     [args_for ''host.cpp'', args_for ''kernel.cu'', args_for ''host2.cpp''] =
   (None,
    \<lparr>compiler_so = [''c++'', ''-fPIC''],
     src_extensions = [''.c'', ''.cpp'', ''.cu''],
     invoked =
       [\<lparr>inv_compiler_so = [''c++'', ''-fPIC''],
         inv_args = (args_for ''host.cpp'')\<lparr>a_extra_postargs := compiler_flags cuda_globals\<rparr>\<rparr>,
        \<lparr>inv_compiler_so = [''/usr/local/cuda/bin/nvcc''],
         inv_args = (args_for ''kernel.cu'')\<lparr>a_extra_postargs := nvcc_flags cuda_globals\<rparr>\<rparr>,
        \<lparr>inv_compiler_so = [''c++'', ''-fPIC''],
         inv_args = (args_for ''host2.cpp'')\<lparr>a_extra_postargs := compiler_flags cuda_globals\<rparr>\<rparr>]\<rparr>)"
proof -
  have cu: "snd (splitext (a_src (args_for ''kernel.cu''))) = ''.cu''"
    by (simp add: args_for_def splitext_kernel_cu)
  have h2: "snd (splitext (a_src (args_for ''host2.cpp''))) \<noteq> ''.cu''"
    by (simp add: args_for_def splitext_host2_cpp)
  have s1: "after_host =
      \<lparr>compiler_so = [''c++'', ''-fPIC''], src_extensions = [''.c'', ''.cpp'', ''.cu''],
       invoked = [\<lparr>inv_compiler_so = [''c++'', ''-fPIC''],
         inv_args = (args_for ''host.cpp'')\<lparr>a_extra_postargs := compiler_flags cuda_globals\<rparr>\<rparr>]\<rparr>"
    and r1: "custom_compile cuda_globals (compiler_so host_compiler) tc_checking
            (host_compiler\<lparr>src_extensions := src_extensions host_compiler @ [''.cu'']\<rparr>)
            (args_for ''host.cpp'') =
          (None, after_host)"
    by (simp_all add: after_host_def custom_compile_def customize_compiler_for_nvcc_def
        tc_checking_def host_compiler_def args_for_def splitext_host_cpp)
  have s2: "custom_compile cuda_globals (compiler_so host_compiler) tc_checking after_host
            (args_for ''kernel.cu'') = (None, after_kernel)"
    and k: "after_kernel =
      \<lparr>compiler_so = [''c++'', ''-fPIC''], src_extensions = [''.c'', ''.cpp'', ''.cu''],
       invoked =
         [\<lparr>inv_compiler_so = [''c++'', ''-fPIC''],
           inv_args = (args_for ''host.cpp'')\<lparr>a_extra_postargs := compiler_flags cuda_globals\<rparr>\<rparr>,
          \<lparr>inv_compiler_so = [''/usr/local/cuda/bin/nvcc''],
           inv_args = (args_for ''kernel.cu'')\<lparr>a_extra_postargs := nvcc_flags cuda_globals\<rparr>\<rparr>]\<rparr>"
    by (simp_all add: after_kernel_def custom_compile_def tc_checking_def cuda_globals_eval s1
        host_compiler_def args_for_def splitext_kernel_cu)
  have d: "compiler_so host_compiler = [''c++'', ''-fPIC'']"
    by (simp add: host_compiler_def)
  have step3: "super_compile tc_checking (after_kernel\<lparr>compiler_so := [''c++'', ''-fPIC'']\<rparr>)
      ((args_for ''host2.cpp'')\<lparr>a_extra_postargs := compiler_flags cuda_globals\<rparr>) = None"
    by (simp add: tc_checking_def args_for_def splitext_host2_cpp)
  from dispatch_round_trip [OF cu s2 h2]
  have s3: "custom_compile cuda_globals (compiler_so host_compiler) tc_checking after_kernel
      (args_for ''host2.cpp'') =
     (None,
      after_kernel\<lparr>compiler_so := [''c++'', ''-fPIC''],
        invoked := invoked after_kernel @
          [\<lparr>inv_compiler_so = [''c++'', ''-fPIC''],
            inv_args = (args_for ''host2.cpp'')\<lparr>a_extra_postargs := compiler_flags cuda_globals\<rparr>\<rparr>]\<rparr>)"
    by (simp add: d step3)
  have "build_extensions cuda_globals tc_checking host_compiler
     [args_for ''host.cpp'', args_for ''kernel.cu'', args_for ''host2.cpp''] =
     (None,
      after_kernel\<lparr>compiler_so := [''c++'', ''-fPIC''],
        invoked := invoked after_kernel @
          [\<lparr>inv_compiler_so = [''c++'', ''-fPIC''],
            inv_args = (args_for ''host2.cpp'')\<lparr>a_extra_postargs := compiler_flags cuda_globals\<rparr>\<rparr>]\<rparr>)"
    by (simp add: build_extensions_def customize_compiler_for_nvcc_def r1 s2 s3)
  then show ?thesis
    by (simp add: k)
qed

end
